theory Spec2Isabelle
  imports Main "HOL-Library.Char_ord" "HOL-Library.List_Lexorder"
begin

section \<open>Strings\<close>

text \<open>
  Python text is modelled by \<^typ>\<open>string\<close>: the list of the bytes of its UTF-8 encoding
  (the encoding the script reads and writes with). The order on strings is the
  lexicographic order on bytes, which on UTF-8 is the order of the code points, the
  order Python compares \<open>str\<close> values with. A character of the text is the byte
  sequence of one code point; \<open>characters\<close> splits a text into them.
\<close>

definition NL :: string where
  "NL = [CHR 0x0A]"

definition digit_char :: "nat \<Rightarrow> char" where
  "digit_char d = char_of (48 + d)"

text \<open>\<open>str(n)\<close> for a non-negative integer.\<close>

function dec :: "nat \<Rightarrow> string" where
  "dec n = (if n < 10 then [digit_char n] else dec (n div 10) @ [digit_char (n mod 10)])"
  by pat_completeness auto
termination
  by (relation "measure id") auto

declare dec.simps [simp del]

text \<open>\<open>format(n, "0{w}d")\<close> for a non-negative integer: zeros on the left up to width \<open>w\<close>.\<close>

definition zfill :: "nat \<Rightarrow> nat \<Rightarrow> string" where
  "zfill w n = replicate (w - length (dec n)) (CHR ''0'') @ dec n"

text \<open>The number of bytes of the character that starts with a given byte.\<close>

definition utf8_len :: "char \<Rightarrow> nat" where
  "utf8_len c =
     (let k = (of_char c :: nat)
      in if k < 0xC0 then 1 else if k < 0xE0 then 2 else if k < 0xF0 then 3 else 4)"

function characters :: "string \<Rightarrow> string list" where
  "characters [] = []"
| "characters (c # cs) =
     (c # take (utf8_len c - 1) cs) # characters (drop (utf8_len c - 1) cs)"
  by pat_completeness auto
termination
  by (relation "measure length") auto

text \<open>
  \<open>str.rstrip()\<close> removes the trailing whitespace characters. Python's whitespace
  characters (those \<open>str.isspace\<close> accepts) are U+0009 to U+000D, U+001C to U+0020,
  U+0085, U+00A0, U+1680, U+2000 to U+200A, U+2028, U+2029, U+202F, U+205F and U+3000;
  \<open>WHITESPACE\<close> lists their encodings.
\<close>

definition WHITESPACE :: "string list" where
  "WHITESPACE =
     [[CHR 0x09], [CHR 0x0A], [CHR 0x0B], [CHR 0x0C], [CHR 0x0D], [CHR 0x1C], [CHR 0x1D],
      [CHR 0x1E], [CHR 0x1F], [CHR 0x20], [CHR 0xC2, CHR 0x85], [CHR 0xC2, CHR 0xA0],
      [CHR 0xE1, CHR 0x9A, CHR 0x80], [CHR 0xE2, CHR 0x80, CHR 0x80],
      [CHR 0xE2, CHR 0x80, CHR 0x81], [CHR 0xE2, CHR 0x80, CHR 0x82],
      [CHR 0xE2, CHR 0x80, CHR 0x83], [CHR 0xE2, CHR 0x80, CHR 0x84],
      [CHR 0xE2, CHR 0x80, CHR 0x85], [CHR 0xE2, CHR 0x80, CHR 0x86],
      [CHR 0xE2, CHR 0x80, CHR 0x87], [CHR 0xE2, CHR 0x80, CHR 0x88],
      [CHR 0xE2, CHR 0x80, CHR 0x89], [CHR 0xE2, CHR 0x80, CHR 0x8A],
      [CHR 0xE2, CHR 0x80, CHR 0xA8], [CHR 0xE2, CHR 0x80, CHR 0xA9],
      [CHR 0xE2, CHR 0x80, CHR 0xAF], [CHR 0xE2, CHR 0x81, CHR 0x9F],
      [CHR 0xE3, CHR 0x80, CHR 0x80]]"

definition isspace :: "string \<Rightarrow> bool" where
  "isspace ch = (ch \<in> set WHITESPACE)"

definition rstrip :: "string \<Rightarrow> string" where
  "rstrip s = concat (rev (dropWhile isspace (rev (characters s))))"

section \<open>Paths\<close>

text \<open>
  An absolute path is the list of its components below the filesystem root, so the root
  itself is \<open>[]\<close>. Paths are compared component by component, as \<open>pathlib\<close> compares
  them: two spellings of one file (through \<open>..\<close> or a symbolic link) are two paths.
  A leading double slash is read as a single one.
\<close>

type_synonym path = "string list"

definition parent :: "path \<Rightarrow> path" where
  "parent p = butlast p"

fun split_on :: "char \<Rightarrow> string \<Rightarrow> string list" where
  "split_on sep [] = [[]]"
| "split_on sep (c # cs) =
     (if c = sep then [] # split_on sep cs
      else (case split_on sep cs of [] \<Rightarrow> [[c]] | x # xs \<Rightarrow> (c # x) # xs))"

definition parse_parts :: "string \<Rightarrow> path" where
  "parse_parts s = filter (\<lambda>x. x \<noteq> [] \<and> x \<noteq> ''.'') (split_on (CHR ''/'') s)"

definition is_absolute :: "string \<Rightarrow> bool" where
  "is_absolute s = (case s of [] \<Rightarrow> False | c # _ \<Rightarrow> c = CHR ''/'')"

text \<open>\<open>root / s\<close>: an absolute right operand replaces the left one.\<close>

definition joinpath :: "path \<Rightarrow> string \<Rightarrow> path" where
  "joinpath p s = (if is_absolute s then parse_parts s else p @ parse_parts s)"

fun join_slash :: "string list \<Rightarrow> string" where
  "join_slash [] = []"
| "join_slash [x] = x"
| "join_slash (x # y # ys) = x @ ''/'' @ join_slash (y # ys)"

text \<open>\<open>as_posix\<close> of a relative path, and \<open>str\<close> of an absolute one.\<close>

definition as_posix :: "path \<Rightarrow> string" where
  "as_posix r = (if r = [] then ''.'' else join_slash r)"

definition path_str :: "path \<Rightarrow> string" where
  "path_str p = ''/'' @ join_slash p"

datatype error =
    ValueError
  | FileNotFoundError
  | FileExistsError
  | NotADirectoryError
  | IsADirectoryError
  | PermissionError
  | UnicodeDecodeError

text \<open>\<open>p.relative_to(root)\<close> is lexical, and raises when \<open>root\<close> is not a prefix.\<close>

definition relative_to :: "path \<Rightarrow> path \<Rightarrow> error + path" where
  "relative_to p root =
     (if take (length root) p = root then Inr (drop (length root) p) else Inl ValueError)"

definition rel_posix :: "path \<Rightarrow> path \<Rightarrow> error + string" where
  "rel_posix p root = (case relative_to p root of Inl e \<Rightarrow> Inl e | Inr r \<Rightarrow> Inr (as_posix r))"

section \<open>The filesystem\<close>

text \<open>
  What reading a file as UTF-8 text gives: its text, or a failure. A node is a directory
  or a file with its content and its \<open>st_ctime\<close> and \<open>st_mtime\<close>. The text of a file is
  the text \<open>read_text\<close> returns for it, with the line ends the text mode of Python has
  translated to \<open>\n\<close>. The type \<open>'t\<close> of POSIX timestamps is left open.
\<close>

datatype content = Text string | Unreadable | NotUtf8

datatype 't node = Dir | File content 't 't

type_synonym 't tree = "path \<Rightarrow> 't node option"

definition exists :: "'t tree \<Rightarrow> path \<Rightarrow> bool" where
  "exists fs p = (fs p \<noteq> None)"

definition is_file :: "'t tree \<Rightarrow> path \<Rightarrow> bool" where
  "is_file fs p = (case fs p of Some (File _ _ _) \<Rightarrow> True | _ \<Rightarrow> False)"

definition read_text :: "'t tree \<Rightarrow> path \<Rightarrow> error + string" where
  "read_text fs p =
     (case fs p of
        None \<Rightarrow> Inl FileNotFoundError
      | Some Dir \<Rightarrow> Inl IsADirectoryError
      | Some (File Unreadable _ _) \<Rightarrow> Inl PermissionError
      | Some (File NotUtf8 _ _) \<Rightarrow> Inl UnicodeDecodeError
      | Some (File (Text s) _ _) \<Rightarrow> Inr s)"

section \<open>Root Locator\<close>

text \<open>
  \<open>find_project_root\<close>: the argument \<open>resolved\<close> is \<open>Path(start or __file__).resolve()\<close>,
  the resolved path of the script (or of the caller's \<open>start\<close>); the walk starts in its
  parent directory. The loop \<open>while cur != cur.parent\<close> is \<open>walk_up\<close>, which gives
  \<open>None\<close> when the loop ends without returning.
\<close>

function walk_up :: "'t tree \<Rightarrow> path \<Rightarrow> path option" where
  "walk_up fs cur =
     (if cur \<noteq> parent cur then
        (if exists fs (cur @ [''Cargo.toml'']) then Some cur else walk_up fs (parent cur))
      else None)"
  by pat_completeness auto
termination
proof (relation "measure (\<lambda>(fs, cur). length cur)")
  show "wf (measure (\<lambda>(fs::'t tree, cur::path). length cur))"
    by simp
next
  fix fs :: "'t tree" and cur :: path
  assume "cur \<noteq> parent cur"
  then have "cur \<noteq> []"
    by (auto simp: parent_def)
  then show "((fs, parent cur), (fs, cur)) \<in> measure (\<lambda>(fs, cur). length cur)"
    by (simp add: parent_def)
qed

declare walk_up.simps [simp del]

definition find_project_root :: "'t tree \<Rightarrow> path \<Rightarrow> path" where
  "find_project_root fs resolved =
     (case walk_up fs (parent resolved) of Some d \<Rightarrow> d | None \<Rightarrow> parent resolved)"

section \<open>Timestamps\<close>

text \<open>
  A \<open>datetime\<close> value is its broken-down local time. \<open>strftime\<close> interprets the
  directives the two format strings of the script use; \<open>%Y\<close> is the year in four
  digits, the others are two digits wide, \<open>%f\<close> is the microsecond in six.
\<close>

record datetime =
  year :: nat
  month :: nat
  day :: nat
  hour :: nat
  minute :: nat
  second :: nat
  microsecond :: nat

definition directive :: "char \<Rightarrow> datetime \<Rightarrow> string" where
  "directive c d =
     (if c = CHR ''Y'' then zfill 4 (year d)
      else if c = CHR ''m'' then zfill 2 (month d)
      else if c = CHR ''d'' then zfill 2 (day d)
      else if c = CHR ''H'' then zfill 2 (hour d)
      else if c = CHR ''M'' then zfill 2 (minute d)
      else if c = CHR ''S'' then zfill 2 (second d)
      else if c = CHR ''f'' then zfill 6 (microsecond d)
      else [CHR ''%'', c])"

fun strftime :: "string \<Rightarrow> datetime \<Rightarrow> string" where
  "strftime (c # c' # cs) d =
     (if c = CHR ''%'' then directive c' d @ strftime cs d else c # strftime (c' # cs) d)"
| "strftime cs d = cs"

section \<open>Configuration\<close>

definition PROJECT_TITLE :: string where
  "PROJECT_TITLE = ''secure_gate''"

definition OUTPUT_DIR :: string where
  "OUTPUT_DIR = ''code_packages''"

definition TIMESTAMP_FORMAT :: string where
  "TIMESTAMP_FORMAT = ''%Y-%m-%d %H:%M:%S.%f''"

definition OUTPUT_TIMESTAMP_FORMAT :: string where
  "OUTPUT_TIMESTAMP_FORMAT = ''%Y%m%d_%H%M%S''"

text \<open>\<open>Path(__file__).name\<close>, the file name of the script.\<close>

definition SCRIPT_NAME :: string where
  "SCRIPT_NAME = ''package_it.py''"

record pkg_def =
  suffix :: string
  root_files :: "string list"
  include_dirs :: "string list"
  file_pattern :: string
  description :: string

definition PACKAGES :: "pkg_def list" where
  "PACKAGES =
     [\<lparr>suffix = ''src'',
       root_files = [''Cargo.toml'', ''CHANGELOG.md'', ''README.md''],
       include_dirs = [''src''],
       file_pattern = ''*.rs'',
       description = ''Full library source + Cargo.toml''\<rparr>,
      \<lparr>suffix = ''tests'',
       root_files = [],
       include_dirs = [''tests''],
       file_pattern = ''*.rs'',
       description = ''All integration tests''\<rparr>,
      \<lparr>suffix = ''fuzz'',
       root_files = [''fuzz/Cargo.toml'', ''.github/workflows/fuzz-nightly.yml'',
                     ''.github/workflows/fuzz-quick.yml''],
       include_dirs = [''fuzz/fuzz_targets''],
       file_pattern = ''*.rs'',
       description = ''Fuzzing targets''\<rparr>,
      \<lparr>suffix = ''mod'',
       root_files = [],
       include_dirs = [''src'', ''tests''],
       file_pattern = ''mod.rs'',
       description = ''Only mod.rs files from src/ and tests/ (module structure overview)''\<rparr>]"

section \<open>The library and the world\<close>

text \<open>
  The library functions whose results the script does not determine are parameters:
  \<open>datetime.fromtimestamp\<close> (the local time of a POSIX timestamp), \<open>datetime.timestamp\<close>
  (its inverse), \<open>str.lower\<close> (the lower-casing of the Unicode character database), and
  \<open>Path.rglob\<close>, which gives, for the tree, a directory and a pattern, the matching
  paths below that directory (each relative to it) in the order the operating system
  lists them.

  The world is the tree, the system clock as the sequence of its successive readings with
  the number of readings taken so far, and the lines printed.
\<close>

record 't library =
  fromtimestamp :: "'t \<Rightarrow> datetime"
  dt_timestamp :: "datetime \<Rightarrow> 't"
  str_lower :: "string \<Rightarrow> string"
  rglob :: "'t tree \<Rightarrow> path \<Rightarrow> string \<Rightarrow> path list"

record 't world =
  nodes :: "'t tree"
  clock :: "nat \<Rightarrow> 't"
  ticks :: nat
  console :: "string list"

definition format_timestamp :: "'t library \<Rightarrow> 't \<Rightarrow> string" where
  "format_timestamp lib ts =
     (let s = strftime TIMESTAMP_FORMAT (fromtimestamp lib ts) in take (length s - 3) s)"

text \<open>\<open>datetime.now()\<close> reads the clock.\<close>

definition now :: "'t library \<Rightarrow> 't world \<Rightarrow> datetime \<times> 't world" where
  "now lib w = (fromtimestamp lib (clock w (ticks w)), w\<lparr>ticks := Suc (ticks w)\<rparr>)"

definition format_output_timestamp :: "'t library \<Rightarrow> 't world \<Rightarrow> string \<times> 't world" where
  "format_output_timestamp lib w =
     (let (d, w') = now lib w in (strftime OUTPUT_TIMESTAMP_FORMAT d, w'))"

section \<open>Archive Writer: one section\<close>

definition SECTION_RULE :: string where
  "SECTION_RULE = replicate 80 (CHR ''='')"

definition section_header :: "nat \<Rightarrow> string \<Rightarrow> string \<Rightarrow> string \<Rightarrow> string" where
  "section_header idx rel_path ctime mtime =
     NL @ NL @ NL @ SECTION_RULE @ NL
     @ ''// SECTION '' @ zfill 3 idx @ '': '' @ rel_path @ NL
     @ ''// Created:  '' @ ctime @ NL
     @ ''// Modified: '' @ mtime @ NL
     @ SECTION_RULE @ NL"

text \<open>
  \<open>add_file\<close> appends to the two lists it is given; the model returns the new lists.
  \<open>read_text\<close> raises for everything but a decodable file, and the two \<open>stat\<close> calls
  follow a successful read, so they see a file.
\<close>

definition add_file ::
  "'t library \<Rightarrow> 't tree \<Rightarrow> string list \<times> string list \<Rightarrow> path \<Rightarrow> path
    \<Rightarrow> error + string list \<times> string list" where
  "add_file lib fs acc file_path root =
     (case rel_posix file_path root of
        Inl e \<Rightarrow> Inl e
      | Inr rel_path \<Rightarrow>
          (case fs file_path of
             None \<Rightarrow> Inl FileNotFoundError
           | Some Dir \<Rightarrow> Inl IsADirectoryError
           | Some (File Unreadable st_ctime st_mtime) \<Rightarrow> Inl PermissionError
           | Some (File NotUtf8 st_ctime st_mtime) \<Rightarrow> Inl UnicodeDecodeError
           | Some (File (Text content) st_ctime st_mtime) \<Rightarrow>
               (let ctime = format_timestamp lib st_ctime;
                    mtime = format_timestamp lib st_mtime;
                    idx = length (snd acc) + 1;
                    header = section_header idx rel_path ctime mtime
                in Inr (fst acc @ [header @ rstrip content @ NL], snd acc @ [rel_path]))))"

section \<open>File Collector\<close>

record collected =
  file_contents :: "string list"
  toc_entries :: "string list"
  seen_paths :: "string set"

definition empty_collected :: collected where
  "empty_collected = \<lparr>file_contents = [], toc_entries = [], seen_paths = {}\<rparr>"

text \<open>The body both loops share: take the path unless its relative path was seen.\<close>

definition visit :: "'t library \<Rightarrow> 't tree \<Rightarrow> path \<Rightarrow> path \<Rightarrow> collected \<Rightarrow> error + collected" where
  "visit lib fs root p st =
     (case rel_posix p root of
        Inl e \<Rightarrow> Inl e
      | Inr rel \<Rightarrow>
          (if rel \<notin> seen_paths st then
             (case add_file lib fs (file_contents st, toc_entries st) p root of
                Inl e \<Rightarrow> Inl e
              | Inr acc \<Rightarrow>
                  Inr \<lparr>file_contents = fst acc, toc_entries = snd acc,
                       seen_paths = insert rel (seen_paths st)\<rparr>)
           else Inr st))"

fun visit_all ::
  "'t library \<Rightarrow> 't tree \<Rightarrow> path \<Rightarrow> path list \<Rightarrow> collected \<Rightarrow> error + collected" where
  "visit_all lib fs root [] st = Inr st"
| "visit_all lib fs root (p # ps) st =
     (case visit lib fs root p st of
        Inl e \<Rightarrow> Inl e
      | Inr st' \<Rightarrow> visit_all lib fs root ps st')"

text \<open>The loop over \<open>root_files\<close>.\<close>

fun root_loop ::
  "'t library \<Rightarrow> 't tree \<Rightarrow> path \<Rightarrow> string list \<Rightarrow> collected \<Rightarrow> error + collected" where
  "root_loop lib fs root [] st = Inr st"
| "root_loop lib fs root (f # rest) st =
     (let p = joinpath root f in
      if is_file fs p then
        (case visit lib fs root p st of
           Inl e \<Rightarrow> Inl e
         | Inr st' \<Rightarrow> root_loop lib fs root rest st')
      else root_loop lib fs root rest st)"

text \<open>
  \<open>sorted(base_dir.rglob(pattern), key=...)\<close>: the key of every match is computed
  first, and raises when the match is not below \<open>root\<close>; the sort is stable.
\<close>

definition sort_key_of :: "'t library \<Rightarrow> path \<Rightarrow> path \<Rightarrow> string" where
  "sort_key_of lib root p = str_lower lib (as_posix (drop (length root) p))"

definition sorted_matches ::
  "'t library \<Rightarrow> 't tree \<Rightarrow> path \<Rightarrow> path \<Rightarrow> string \<Rightarrow> error + path list" where
  "sorted_matches lib fs root base_dir pattern =
     (let ms = map (\<lambda>sub. base_dir @ sub) (rglob lib fs base_dir pattern) in
      if list_all (\<lambda>p. take (length root) p = root) ms
      then Inr (sort_key (sort_key_of lib root) ms)
      else Inl ValueError)"

definition warning :: "path \<Rightarrow> string" where
  "warning base_dir = ''  Warning: Directory not found: '' @ path_str base_dir"

text \<open>The loop over \<open>include_dirs\<close>; \<open>out\<close> is the console.\<close>

fun dir_loop ::
  "'t library \<Rightarrow> 't tree \<Rightarrow> path \<Rightarrow> string \<Rightarrow> string list \<Rightarrow> collected \<Rightarrow> string list
    \<Rightarrow> error + collected \<times> string list" where
  "dir_loop lib fs root pattern [] st out = Inr (st, out)"
| "dir_loop lib fs root pattern (base_dir_name # rest) st out =
     (let base_dir = joinpath root base_dir_name in
      if \<not> exists fs base_dir then
        dir_loop lib fs root pattern rest st (out @ [warning base_dir])
      else
        (case sorted_matches lib fs root base_dir pattern of
           Inl e \<Rightarrow> Inl e
         | Inr ms \<Rightarrow>
             (case visit_all lib fs root ms st of
                Inl e \<Rightarrow> Inl e
              | Inr st' \<Rightarrow> dir_loop lib fs root pattern rest st' out)))"

definition collect ::
  "'t library \<Rightarrow> 't tree \<Rightarrow> path \<Rightarrow> pkg_def \<Rightarrow> string list \<Rightarrow> error + collected \<times> string list" where
  "collect lib fs root pkg out =
     (case root_loop lib fs root (root_files pkg) empty_collected of
        Inl e \<Rightarrow> Inl e
      | Inr st \<Rightarrow> dir_loop lib fs root (file_pattern pkg) (include_dirs pkg) st out)"

section \<open>Archive Writer: the document\<close>

definition TOC_RULE :: string where
  "TOC_RULE = ''// '' @ replicate 76 (CHR ''='')"

text \<open>The UTF-8 bytes of the en dash, the rightwards arrow and the em dash.\<close>

definition EN_DASH :: string where
  "EN_DASH = [CHR 0xE2, CHR 0x80, CHR 0x93]"

definition ARROW :: string where
  "ARROW = [CHR 0xE2, CHR 0x86, CHR 0x92]"

definition EM_DASH :: string where
  "EM_DASH = [CHR 0xE2, CHR 0x80, CHR 0x94]"

definition toc_line :: "nat \<times> string \<Rightarrow> string" where
  "toc_line ie = ''// '' @ zfill 3 (fst ie) @ ''. '' @ snd ie @ NL"

definition NO_FILES :: string where
  "NO_FILES = ''// (no files included)'' @ NL"

definition toc_lines :: "string list \<Rightarrow> string list" where
  "toc_lines toc =
     [TOC_RULE @ NL, ''// TABLE OF CONTENTS'' @ NL, TOC_RULE @ NL]
     @ map toc_line (enumerate 1 toc)
     @ (if toc = [] then [NO_FILES] else [])
     @ [TOC_RULE @ NL @ NL]"

definition doc_header :: "string \<Rightarrow> string \<Rightarrow> string" where
  "doc_header descr header_time =
     TOC_RULE @ NL
     @ ''// '' @ PROJECT_TITLE @ '' '' @ EN_DASH @ '' '' @ descr @ NL
     @ ''// Generated by: '' @ SCRIPT_NAME @ NL
     @ ''// Generated at: '' @ header_time @ NL
     @ TOC_RULE @ NL @ NL"

definition document :: "string \<Rightarrow> string \<Rightarrow> collected \<Rightarrow> string" where
  "document descr header_time st =
     doc_header descr header_time @ concat (toc_lines (toc_entries st))
     @ concat (file_contents st)"

text \<open>\<open>out_dir.mkdir(exist_ok=True)\<close> and \<open>output_path.open("w")\<close>.\<close>

definition mkdir_exist_ok :: "'t tree \<Rightarrow> path \<Rightarrow> error + 't tree" where
  "mkdir_exist_ok fs p =
     (case fs p of
        Some Dir \<Rightarrow> Inr fs
      | Some (File _ _ _) \<Rightarrow> Inl FileExistsError
      | None \<Rightarrow>
          (case fs (parent p) of
             Some Dir \<Rightarrow> Inr (fs(p \<mapsto> Dir))
           | Some (File _ _ _) \<Rightarrow> Inl NotADirectoryError
           | None \<Rightarrow> Inl FileNotFoundError))"

definition open_w :: "'t tree \<Rightarrow> path \<Rightarrow> error + unit" where
  "open_w fs p =
     (case fs p of
        Some Dir \<Rightarrow> Inl IsADirectoryError
      | Some (File _ _ _) \<Rightarrow> Inr ()
      | None \<Rightarrow>
          (case fs (parent p) of
             Some Dir \<Rightarrow> Inr ()
           | Some (File _ _ _) \<Rightarrow> Inl NotADirectoryError
           | None \<Rightarrow> Inl FileNotFoundError))"

definition output_filename :: "string \<Rightarrow> string \<Rightarrow> string" where
  "output_filename timestamp sfx = timestamp @ ''_'' @ PROJECT_TITLE @ ''_'' @ sfx @ ''.txt''"

definition summary :: "string \<Rightarrow> nat \<Rightarrow> string" where
  "summary name n = ''  '' @ ARROW @ '' '' @ name @ ''  ('' @ dec n @ '' files)''"

text \<open>
  \<open>create_package\<close>. An exception ends the run, so the result is the error alone: what
  was printed or created before it is not part of the result. The file written gets
  the next value of the clock as its times.
\<close>

definition create_package ::
  "'t library \<Rightarrow> pkg_def \<Rightarrow> path \<Rightarrow> string \<Rightarrow> 't world \<Rightarrow> error + 't world" where
  "create_package lib pkg root timestamp w =
     (let out_dir = joinpath root OUTPUT_DIR in
      case mkdir_exist_ok (nodes w) out_dir of
        Inl e \<Rightarrow> Inl e
      | Inr fs \<Rightarrow>
          (let output_path = joinpath out_dir (output_filename timestamp (suffix pkg)) in
           case collect lib fs root pkg (console w) of
             Inl e \<Rightarrow> Inl e
           | Inr (st, out) \<Rightarrow>
               (case open_w fs output_path of
                  Inl e \<Rightarrow> Inl e
                | Inr _ \<Rightarrow>
                    (let (d, w1) = now lib w;
                         header_time = format_timestamp lib (dt_timestamp lib d);
                         doc = document (description pkg) header_time st;
                         stamp = clock w1 (ticks w1)
                     in Inr (w1\<lparr>nodes := fs(output_path \<mapsto> File (Text doc) stamp stamp),
                                console := out @ [summary (output_filename timestamp (suffix pkg))
                                                    (length (file_contents st))]\<rparr>)))))"

section \<open>Orchestrator\<close>

fun pkg_loop ::
  "'t library \<Rightarrow> path \<Rightarrow> string \<Rightarrow> pkg_def list \<Rightarrow> 't world \<Rightarrow> error + 't world" where
  "pkg_loop lib root timestamp [] w = Inr w"
| "pkg_loop lib root timestamp (pkg # rest) w =
     (let w1 = w\<lparr>console := console w
                  @ [''Creating '' @ PROJECT_TITLE @ ''_'' @ suffix pkg @ '' ...'']\<rparr> in
      case create_package lib pkg root timestamp w1 of
        Inl e \<Rightarrow> Inl e
      | Inr w2 \<Rightarrow> pkg_loop lib root timestamp rest w2)"

text \<open>\<open>package_all\<close>; \<open>root\<close> is the resolved root.\<close>

definition package_all :: "'t library \<Rightarrow> path \<Rightarrow> 't world \<Rightarrow> error + 't world" where
  "package_all lib root w =
     (let (timestamp, w1) = format_output_timestamp lib w;
          w2 = w1\<lparr>console := console w1
                   @ [''Project root: '' @ path_str root,
                      ''Timestamp prefix: '' @ timestamp @ NL]\<rparr> in
      case pkg_loop lib root timestamp PACKAGES w2 of
        Inl e \<Rightarrow> Inl e
      | Inr w3 \<Rightarrow>
          Inr (w3\<lparr>console := console w3
                    @ [NL @ ''All 4 packages created in ./'' @ OUTPUT_DIR @ ''/'' @ NL,
                       ''Files are chronologically sortable '' @ EM_DASH @ '' perfect!'']\<rparr>))"

section \<open>Vocabulary of the properties\<close>

definition rel_of :: "path \<Rightarrow> path \<Rightarrow> string" where
  "rel_of root p = as_posix (drop (length root) p)"

fun first_seen :: "('a \<Rightarrow> 'k) \<Rightarrow> 'k set \<Rightarrow> 'a list \<Rightarrow> 'a list" where
  "first_seen key seen [] = []"
| "first_seen key seen (x # xs) =
     (if key x \<in> seen then first_seen key seen xs
      else x # first_seen key (insert (key x) seen) xs)"

definition section_of :: "'t library \<Rightarrow> 't tree \<Rightarrow> path \<Rightarrow> nat \<times> path \<Rightarrow> string" where
  "section_of lib fs root ip =
     (case fs (snd ip) of
        Some (File (Text content) st_ctime st_mtime) \<Rightarrow>
          section_header (fst ip) (rel_of root (snd ip))
            (format_timestamp lib st_ctime) (format_timestamp lib st_mtime)
          @ rstrip content @ NL
      | _ \<Rightarrow> [])"

definition below :: "path \<Rightarrow> path \<Rightarrow> bool" where
  "below root p = (take (length root) p = root)"

definition readable :: "'t tree \<Rightarrow> path \<Rightarrow> bool" where
  "readable fs p = (\<not> isl (read_text fs p))"

definition extend :: "'t library \<Rightarrow> 't tree \<Rightarrow> path \<Rightarrow> collected \<Rightarrow> path list \<Rightarrow> path list \<Rightarrow> collected" where
  "extend lib fs root st ps sel =
     \<lparr>file_contents = file_contents st
        @ map (section_of lib fs root) (enumerate (Suc (length (toc_entries st))) sel),
      toc_entries = toc_entries st @ map (rel_of root) sel,
      seen_paths = seen_paths st \<union> rel_of root ` set ps\<rparr>"

definition root_candidates :: "'t tree \<Rightarrow> path \<Rightarrow> pkg_def \<Rightarrow> path list" where
  "root_candidates fs root pkg = filter (is_file fs) (map (joinpath root) (root_files pkg))"

definition dir_matches :: "'t library \<Rightarrow> 't tree \<Rightarrow> path \<Rightarrow> string \<Rightarrow> string \<Rightarrow> path list" where
  "dir_matches lib fs root pattern d =
     sort_key (\<lambda>p. str_lower lib (rel_of root p))
       (map (\<lambda>sub. joinpath root d @ sub) (rglob lib fs (joinpath root d) pattern))"

definition existing_dirs :: "'t tree \<Rightarrow> path \<Rightarrow> string list \<Rightarrow> string list" where
  "existing_dirs fs root ds = filter (\<lambda>d. exists fs (joinpath root d)) ds"

definition missing_dirs :: "'t tree \<Rightarrow> path \<Rightarrow> string list \<Rightarrow> string list" where
  "missing_dirs fs root ds = filter (\<lambda>d. \<not> exists fs (joinpath root d)) ds"

definition dir_candidates :: "'t library \<Rightarrow> 't tree \<Rightarrow> path \<Rightarrow> string \<Rightarrow> string list \<Rightarrow> path list" where
  "dir_candidates lib fs root pattern ds =
     concat (map (dir_matches lib fs root pattern) (existing_dirs fs root ds))"

definition candidates :: "'t library \<Rightarrow> 't tree \<Rightarrow> path \<Rightarrow> pkg_def \<Rightarrow> path list" where
  "candidates lib fs root pkg =
     root_candidates fs root pkg @ dir_candidates lib fs root (file_pattern pkg) (include_dirs pkg)"

definition selected :: "'t library \<Rightarrow> 't tree \<Rightarrow> path \<Rightarrow> pkg_def \<Rightarrow> path list" where
  "selected lib fs root pkg = first_seen (rel_of root) {} (candidates lib fs root pkg)"

definition warnings :: "'t tree \<Rightarrow> path \<Rightarrow> string list \<Rightarrow> string list" where
  "warnings fs root ds = map (\<lambda>d. warning (joinpath root d)) (missing_dirs fs root ds)"

definition relative :: "string \<Rightarrow> bool" where
  "relative s = (\<not> is_absolute s)"

definition collected_of :: "'t library \<Rightarrow> 't tree \<Rightarrow> path \<Rightarrow> path list \<Rightarrow> collected" where
  "collected_of lib fs root sel =
     \<lparr>file_contents = map (section_of lib fs root) (enumerate 1 sel),
      toc_entries = map (rel_of root) sel,
      seen_paths = set (map (rel_of root) sel)\<rparr>"

definition out_path :: "path \<Rightarrow> string \<Rightarrow> pkg_def \<Rightarrow> path" where
  "out_path root timestamp pkg =
     joinpath (joinpath root OUTPUT_DIR) (output_filename timestamp (suffix pkg))"

definition header_time_at :: "'t library \<Rightarrow> 't world \<Rightarrow> string" where
  "header_time_at lib w =
     format_timestamp lib (dt_timestamp lib (fromtimestamp lib (clock w (ticks w))))"

definition written :: "'t library \<Rightarrow> pkg_def \<Rightarrow> path \<Rightarrow> string \<Rightarrow> 't world \<Rightarrow> 't tree
    \<Rightarrow> collected \<Rightarrow> string list \<Rightarrow> 't world" where
  "written lib pkg root timestamp w fs st out =
     w\<lparr>ticks := Suc (ticks w),
       nodes := fs(out_path root timestamp pkg \<mapsto>
                  File (Text (document (description pkg) (header_time_at lib w) st))
                    (clock w (Suc (ticks w))) (clock w (Suc (ticks w)))),
       console := out @ [summary (output_filename timestamp (suffix pkg))
                           (length (file_contents st))]\<rparr>"


definition claimed_root_candidates :: "'t tree \<Rightarrow> path \<Rightarrow> pkg_def \<Rightarrow> path list" where
  "claimed_root_candidates fs root pkg = filter (exists fs) (map (joinpath root) (root_files pkg))"

definition claimed_selected :: "'t library \<Rightarrow> 't tree \<Rightarrow> path \<Rightarrow> pkg_def \<Rightarrow> path list" where
  "claimed_selected lib fs root pkg =
     first_seen (rel_of root) {}
       (claimed_root_candidates fs root pkg
        @ dir_candidates lib fs root (file_pattern pkg) (include_dirs pkg))"

definition digits_value :: "string \<Rightarrow> nat" where
  "digits_value s = foldl (\<lambda>a c. 10 * a + (of_char c - 48)) 0 s"

section \<open>Example worlds\<close>

text \<open>
  A script stored as \<open>/a/package_it.py\<close>, with the only \<open>Cargo.toml\<close> in the filesystem
  root.
\<close>

definition tree_marker_at_root :: "nat tree" where
  "tree_marker_at_root =
     Map.empty([] \<mapsto> Dir,
               [''Cargo.toml''] \<mapsto> File (Text ''[package]'') 0 0,
               [''a''] \<mapsto> Dir,
               [''a'', ''package_it.py''] \<mapsto> File (Text '''') 0 0)"

definition ex_datetime :: "nat \<Rightarrow> datetime" where
  "ex_datetime t =
     \<lparr>year = 2025, month = 11, day = 18, hour = 12, minute = 34, second = t mod 60,
      microsecond = (t * 123457) mod 1000000\<rparr>"

text \<open>
  The library of the examples: every clock reading falls on 18 November 2025 after
  12:34, \<open>str.lower\<close> is given on ASCII text, where it maps \<open>A\<close> to \<open>Z\<close> to \<open>a\<close> to \<open>z\<close>
  (the paths of the examples are ASCII), and \<open>rglob\<close> lists what \<open>listing\<close> says.
\<close>

definition ascii_lower_char :: "char \<Rightarrow> char" where
  "ascii_lower_char c =
     (case map_of (zip ''ABCDEFGHIJKLMNOPQRSTUVWXYZ'' ''abcdefghijklmnopqrstuvwxyz'') c of
        Some l \<Rightarrow> l
      | None \<Rightarrow> c)"

definition ascii_lower :: "string \<Rightarrow> string" where
  "ascii_lower s = map ascii_lower_char s"

definition ex_library :: "(path \<Rightarrow> string \<Rightarrow> path list) \<Rightarrow> nat library" where
  "ex_library listing =
     \<lparr>fromtimestamp = ex_datetime, dt_timestamp = second, str_lower = ascii_lower,
      rglob = (\<lambda>fs base_dir pattern. listing base_dir pattern)\<rparr>"

definition ex_world :: "nat tree \<Rightarrow> nat world" where
  "ex_world fs = \<lparr>nodes = fs, clock = (\<lambda>n. n), ticks = 0, console = []\<rparr>"

definition ex_pkg :: pkg_def where
  "ex_pkg = \<lparr>suffix = ''src'', root_files = [''Cargo.toml''], include_dirs = [''src''],
             file_pattern = ''*.rs'', description = ''Full library source + Cargo.toml''\<rparr>"

definition tree_dir_named_rs :: "nat tree" where
  "tree_dir_named_rs =
     Map.empty([] \<mapsto> Dir,
               [''proj''] \<mapsto> Dir,
               [''proj'', ''code_packages''] \<mapsto> Dir,
               [''proj'', ''src''] \<mapsto> Dir,
               [''proj'', ''src'', ''gen.rs''] \<mapsto> Dir,
               [''proj'', ''src'', ''lib.rs''] \<mapsto> File (Text ''fn a(){}'') 5 7)"

definition listing_dir_named_rs :: "path \<Rightarrow> string \<Rightarrow> path list" where
  "listing_dir_named_rs base_dir pattern =
     (if base_dir = [''proj'', ''src''] \<and> pattern = ''*.rs''
      then [[''lib.rs''], [''gen.rs'']] else [])"

definition tree_not_utf8 :: "nat tree" where
  "tree_not_utf8 =
     Map.empty([] \<mapsto> Dir,
               [''proj''] \<mapsto> Dir,
               [''proj'', ''code_packages''] \<mapsto> Dir,
               [''proj'', ''Cargo.toml''] \<mapsto> File (Text ''[package]'') 1 2,
               [''proj'', ''src''] \<mapsto> Dir,
               [''proj'', ''src'', ''lib.rs''] \<mapsto> File NotUtf8 5 7)"

definition listing_lib_rs :: "path \<Rightarrow> string \<Rightarrow> path list" where
  "listing_lib_rs base_dir pattern =
     (if base_dir = [''proj'', ''src''] \<and> pattern = ''*.rs'' then [[''lib.rs'']] else [])"

definition tree_src_listed :: "nat tree" where
  "tree_src_listed =
     Map.empty([] \<mapsto> Dir,
               [''proj''] \<mapsto> Dir,
               [''proj'', ''code_packages''] \<mapsto> Dir,
               [''proj'', ''src''] \<mapsto> Dir,
               [''proj'', ''src'', ''lib.rs''] \<mapsto> File (Text ''fn a(){}'') 5 7)"

definition pkg_src_listed :: pkg_def where
  "pkg_src_listed = \<lparr>suffix = ''src'', root_files = [''src''], include_dirs = [''src''],
                     file_pattern = ''*.rs'', description = ''Sources''\<rparr>"

definition tree_scenario :: "nat tree" where
  "tree_scenario =
     Map.empty([] \<mapsto> Dir,
               [''proj''] \<mapsto> Dir,
               [''proj'', ''code_packages''] \<mapsto> Dir,
               [''proj'', ''Cargo.toml''] \<mapsto> File (Text ''[package]'') 1 2,
               [''proj'', ''src''] \<mapsto> Dir,
               [''proj'', ''src'', ''lib.rs''] \<mapsto> File (Text ''fn a(){}  '') 3 4,
               [''proj'', ''src'', ''mod.rs''] \<mapsto> File (Text ''mod x;'') 5 6)"

definition listing_scenario :: "path \<Rightarrow> string \<Rightarrow> path list" where
  "listing_scenario base_dir pattern =
     (if base_dir = [''proj'', ''src''] \<and> pattern = ''*.rs'' then [[''mod.rs''], [''lib.rs'']]
      else if base_dir = [''proj'', ''src''] \<and> pattern = ''mod.rs'' then [[''mod.rs'']]
      else [])"

section \<open>The collector as one pass over the candidates\<close>

lemma rel_posix_below: "below root p \<Longrightarrow> rel_posix p root = Inr (rel_of root p)"
  by (simp add: below_def rel_posix_def relative_to_def rel_of_def)

lemma add_file_readable:
  assumes "below root p" "readable fs p"
  shows "add_file lib fs (cs, ts) p root
         = Inr (cs @ [section_of lib fs root (Suc (length ts), p)], ts @ [rel_of root p])"
  using assms
  by (auto simp: add_file_def rel_posix_below readable_def read_text_def section_of_def Let_def
      split: option.splits node.splits content.splits)

lemma add_file_unreadable:
  assumes "below root p" "\<not> readable fs p"
  shows "add_file lib fs acc p root = Inl (projl (read_text fs p))"
  using assms
  by (auto simp: add_file_def rel_posix_below readable_def read_text_def
      split: option.splits node.splits content.splits)

lemma visit_all_readable:
  assumes "list_all (below root) ps"
    and "list_all (readable fs) (first_seen (rel_of root) (seen_paths st) ps)"
  shows "visit_all lib fs root ps st
         = Inr (extend lib fs root st ps (first_seen (rel_of root) (seen_paths st) ps))"
  using assms
proof (induction ps arbitrary: st)
  case Nil
  then show ?case by (simp add: extend_def)
next
  case (Cons p ps)
  have b: "below root p" and bs: "list_all (below root) ps"
    using Cons.prems(1) by simp_all
  show ?case
  proof (cases "rel_of root p \<in> seen_paths st")
    case True
    then have v: "visit lib fs root p st = Inr st"
      by (simp add: visit_def rel_posix_below b)
    have "list_all (readable fs) (first_seen (rel_of root) (seen_paths st) ps)"
      using Cons.prems(2) True by simp
    from Cons.IH [OF bs this] v True show ?thesis
      by (auto simp: extend_def)
  next
    case False
    let ?st' = "\<lparr>file_contents = file_contents st @ [section_of lib fs root (Suc (length (toc_entries st)), p)],
                 toc_entries = toc_entries st @ [rel_of root p],
                 seen_paths = insert (rel_of root p) (seen_paths st)\<rparr>"
    have r: "readable fs p"
      and rs: "list_all (readable fs) (first_seen (rel_of root) (seen_paths ?st') ps)"
      using Cons.prems(2) False by simp_all
    have v: "visit lib fs root p st = Inr ?st'"
      using False by (simp add: visit_def rel_posix_below b add_file_readable [OF b r])
    from Cons.IH [OF bs rs] v False show ?thesis
      by (auto simp: extend_def enumerate_simps)
  qed
qed

lemma visit_all_unreadable:
  assumes "list_all (below root) ps"
    and "\<not> list_all (readable fs) (first_seen (rel_of root) (seen_paths st) ps)"
  shows "\<exists>p. p \<in> set (first_seen (rel_of root) (seen_paths st) ps) \<and> \<not> readable fs p
           \<and> visit_all lib fs root ps st = Inl (projl (read_text fs p))"
  using assms
proof (induction ps arbitrary: st)
  case Nil
  then show ?case by simp
next
  case (Cons p ps)
  have b: "below root p" and bs: "list_all (below root) ps"
    using Cons.prems(1) by simp_all
  show ?case
  proof (cases "rel_of root p \<in> seen_paths st")
    case True
    then have v: "visit lib fs root p st = Inr st"
      by (simp add: visit_def rel_posix_below b)
    have "\<not> list_all (readable fs) (first_seen (rel_of root) (seen_paths st) ps)"
      using Cons.prems(2) True by simp
    from Cons.IH [OF bs this] v True show ?thesis
      by auto
  next
    case False
    let ?st' = "\<lparr>file_contents = file_contents st @ [section_of lib fs root (Suc (length (toc_entries st)), p)],
                 toc_entries = toc_entries st @ [rel_of root p],
                 seen_paths = insert (rel_of root p) (seen_paths st)\<rparr>"
    show ?thesis
    proof (cases "readable fs p")
      case True
      have v: "visit lib fs root p st = Inr ?st'"
        using False by (simp add: visit_def rel_posix_below b add_file_readable [OF b True])
      have "\<not> list_all (readable fs) (first_seen (rel_of root) (seen_paths ?st') ps)"
        using Cons.prems(2) False True by simp
      from Cons.IH [OF bs this] v False show ?thesis
        by auto
    next
      case nr: False
      have "visit lib fs root p st = Inl (projl (read_text fs p))"
        using False by (simp add: visit_def rel_posix_below b add_file_unreadable [OF b nr])
      with False nr show ?thesis
        by auto
    qed
  qed
qed

lemma below_joinpath: "relative s \<Longrightarrow> below root (joinpath root s)"
  by (simp add: relative_def below_def joinpath_def)

lemma below_append:
  assumes "below root p"
  shows "below root (p @ q)"
proof -
  have "length (take (length root) p) = length root"
    using assms by (simp add: below_def)
  then have "length root \<le> length p"
    by simp
  then show ?thesis
    using assms by (simp add: below_def)
qed

lemma root_loop_visit_all:
  "root_loop lib fs root fl st
   = visit_all lib fs root (filter (is_file fs) (map (joinpath root) fl)) st"
  by (induction fl arbitrary: st) (auto simp: Let_def split: sum.splits)

lemma visit_all_append:
  "visit_all lib fs root (ps @ qs) st
   = (case visit_all lib fs root ps st of
        Inl e \<Rightarrow> Inl e
      | Inr st' \<Rightarrow> visit_all lib fs root qs st')"
  by (induction ps arbitrary: st) (auto split: sum.splits)

lemma sort_key_of_rel: "sort_key_of lib root = (\<lambda>p. str_lower lib (rel_of root p))"
  by (rule ext) (simp add: sort_key_of_def rel_of_def)

lemma sorted_matches_below:
  assumes "relative d"
  shows "sorted_matches lib fs root (joinpath root d) pattern
         = Inr (dir_matches lib fs root pattern d)"
proof -
  have "list_all (\<lambda>p. take (length root) p = root)
          (map (\<lambda>sub. joinpath root d @ sub) (rglob lib fs (joinpath root d) pattern))"
    using below_append [OF below_joinpath [OF assms]]
    by (simp add: list_all_iff below_def)
  then show ?thesis
    by (simp add: sorted_matches_def dir_matches_def sort_key_of_rel)
qed

lemma dir_matches_below:
  assumes "relative d"
  shows "list_all (below root) (dir_matches lib fs root pattern d)"
  using below_append [OF below_joinpath [OF assms]]
  by (simp add: list_all_iff dir_matches_def)

lemma dir_loop_visit_all:
  assumes "list_all relative ds"
  shows "dir_loop lib fs root pattern ds st out
         = (case visit_all lib fs root (dir_candidates lib fs root pattern ds) st of
              Inl e \<Rightarrow> Inl e
            | Inr st' \<Rightarrow> Inr (st', out @ warnings fs root ds))"
  using assms
proof (induction ds arbitrary: st out)
  case Nil
  then show ?case
    by (simp add: dir_candidates_def warnings_def existing_dirs_def missing_dirs_def)
next
  case (Cons d ds)
  have rd: "relative d" and rds: "list_all relative ds"
    using Cons.prems by simp_all
  note IH = Cons.IH [OF rds]
  show ?case
  proof (cases "exists fs (joinpath root d)")
    case False
    have c: "dir_candidates lib fs root pattern (d # ds) = dir_candidates lib fs root pattern ds"
      using False by (simp add: dir_candidates_def existing_dirs_def)
    have w: "warnings fs root (d # ds) = warning (joinpath root d) # warnings fs root ds"
      using False by (simp add: warnings_def missing_dirs_def)
    have "dir_loop lib fs root pattern (d # ds) st out
          = dir_loop lib fs root pattern ds st (out @ [warning (joinpath root d)])"
      using False by (simp add: Let_def)
    then show ?thesis
      by (simp add: IH c w split: sum.splits)
  next
    case True
    have c: "dir_candidates lib fs root pattern (d # ds)
             = dir_matches lib fs root pattern d @ dir_candidates lib fs root pattern ds"
      using True by (simp add: dir_candidates_def existing_dirs_def)
    have w: "warnings fs root (d # ds) = warnings fs root ds"
      using True by (simp add: warnings_def missing_dirs_def)
    have step: "dir_loop lib fs root pattern (d # ds) st out
          = (case visit_all lib fs root (dir_matches lib fs root pattern d) st of
               Inl e \<Rightarrow> Inl e
             | Inr st' \<Rightarrow> dir_loop lib fs root pattern ds st' out)"
      using True by (simp add: Let_def sorted_matches_below [OF rd])
    show ?thesis
    proof (cases "visit_all lib fs root (dir_matches lib fs root pattern d) st")
      case (Inl e)
      then show ?thesis
        unfolding step c w visit_all_append by simp
    next
      case (Inr st')
      then show ?thesis
        unfolding step c w visit_all_append by (simp add: IH)
    qed
  qed
qed

lemma collect_visit_all:
  assumes "list_all relative (include_dirs pkg)"
  shows "collect lib fs root pkg out
         = (case visit_all lib fs root (candidates lib fs root pkg) empty_collected of
              Inl e \<Rightarrow> Inl e
            | Inr st \<Rightarrow> Inr (st, out @ warnings fs root (include_dirs pkg)))"
  by (simp add: collect_def candidates_def root_candidates_def root_loop_visit_all
      dir_loop_visit_all [OF assms] visit_all_append split: sum.splits)

lemma candidates_below:
  assumes "list_all relative (root_files pkg)" "list_all relative (include_dirs pkg)"
  shows "list_all (below root) (candidates lib fs root pkg)"
proof -
  have "below root p" if "p \<in> set (root_candidates fs root pkg)" for p
    using that assms(1) by (auto simp: root_candidates_def list_all_iff below_joinpath)
  moreover have "below root p"
    if h: "p \<in> set (dir_candidates lib fs root (file_pattern pkg) (include_dirs pkg))" for p
  proof -
    obtain d where d: "d \<in> set (include_dirs pkg)"
      and p: "p \<in> set (dir_matches lib fs root (file_pattern pkg) d)"
      using h by (auto simp: dir_candidates_def existing_dirs_def)
    have "relative d"
      using d assms(2) by (simp add: list_all_iff)
    then have "list_all (below root) (dir_matches lib fs root (file_pattern pkg) d)"
      by (rule dir_matches_below)
    with p show ?thesis
      by (simp add: list_all_iff)
  qed
  ultimately show ?thesis
    by (auto simp: candidates_def list_all_iff)
qed

lemma set_first_seen: "key ` set (first_seen key S xs) = key ` set xs - S"
  by (induction xs arbitrary: S) auto

lemma collect_readable:
  assumes "list_all relative (root_files pkg)" "list_all relative (include_dirs pkg)"
    and "list_all (readable fs) (selected lib fs root pkg)"
  shows "collect lib fs root pkg out
         = Inr (collected_of lib fs root (selected lib fs root pkg),
                out @ warnings fs root (include_dirs pkg))"
proof -
  have b: "list_all (below root) (candidates lib fs root pkg)"
    by (rule candidates_below [OF assms(1,2)])
  have r: "list_all (readable fs)
             (first_seen (rel_of root) (seen_paths empty_collected) (candidates lib fs root pkg))"
    using assms(3) by (simp add: selected_def empty_collected_def)
  have "extend lib fs root empty_collected (candidates lib fs root pkg)
          (first_seen (rel_of root) (seen_paths empty_collected) (candidates lib fs root pkg))
        = collected_of lib fs root (selected lib fs root pkg)"
    using set_first_seen [of "rel_of root" "{}" "candidates lib fs root pkg"]
    by (simp add: extend_def collected_of_def empty_collected_def selected_def)
  with visit_all_readable [OF b r, of lib] show ?thesis
    by (simp add: collect_visit_all [OF assms(2)])
qed

lemma collect_unreadable:
  assumes "list_all relative (root_files pkg)" "list_all relative (include_dirs pkg)"
    and "\<not> list_all (readable fs) (selected lib fs root pkg)"
  shows "\<exists>p. p \<in> set (selected lib fs root pkg) \<and> \<not> readable fs p
           \<and> collect lib fs root pkg out = Inl (projl (read_text fs p))"
proof -
  have b: "list_all (below root) (candidates lib fs root pkg)"
    by (rule candidates_below [OF assms(1,2)])
  have r: "\<not> list_all (readable fs)
             (first_seen (rel_of root) (seen_paths empty_collected) (candidates lib fs root pkg))"
    using assms(3) by (simp add: selected_def empty_collected_def)
  from visit_all_unreadable [OF b r, of lib]
  obtain p where "p \<in> set (selected lib fs root pkg)" "\<not> readable fs p"
     "visit_all lib fs root (candidates lib fs root pkg) empty_collected = Inl (projl (read_text fs p))"
    by (auto simp: selected_def empty_collected_def)
  then show ?thesis
    by (auto simp: collect_visit_all [OF assms(2)])
qed

lemma create_package_unfold:
  assumes "mkdir_exist_ok (nodes w) (joinpath root OUTPUT_DIR) = Inr fs"
  shows "create_package lib pkg root timestamp w
         = (case collect lib fs root pkg (console w) of
              Inl e \<Rightarrow> Inl e
            | Inr (st, out) \<Rightarrow>
                (case open_w fs (out_path root timestamp pkg) of
                   Inl e \<Rightarrow> Inl e
                 | Inr u \<Rightarrow> Inr (written lib pkg root timestamp w fs st out)))"
  using assms
  by (simp add: create_package_def out_path_def written_def header_time_at_def now_def Let_def
      split: sum.splits prod.splits)

lemma create_package_unreadable:
  assumes "list_all relative (root_files pkg)" "list_all relative (include_dirs pkg)"
    and "mkdir_exist_ok (nodes w) (joinpath root OUTPUT_DIR) = Inr fs"
    and "\<not> list_all (readable fs) (selected lib fs root pkg)"
  shows "\<exists>q. q \<in> set (selected lib fs root pkg) \<and> \<not> readable fs q
           \<and> create_package lib pkg root timestamp w = Inl (projl (read_text fs q))"
proof -
  obtain q where "q \<in> set (selected lib fs root pkg)" "\<not> readable fs q"
    "collect lib fs root pkg (console w) = Inl (projl (read_text fs q))"
    using collect_unreadable [OF assms(1,2,4)] by blast
  then show ?thesis
    by (auto simp: create_package_unfold [OF assms(3)])
qed

lemma create_package_readable:
  assumes "list_all relative (root_files pkg)" "list_all relative (include_dirs pkg)"
    and "mkdir_exist_ok (nodes w) (joinpath root OUTPUT_DIR) = Inr fs"
    and "list_all (readable fs) (selected lib fs root pkg)"
    and "open_w fs (out_path root timestamp pkg) = Inr u"
  shows "create_package lib pkg root timestamp w
         = Inr (written lib pkg root timestamp w fs
                  (collected_of lib fs root (selected lib fs root pkg))
                  (console w @ warnings fs root (include_dirs pkg)))"
  by (simp add: create_package_unfold [OF assms(3)] collect_readable [OF assms(1,2,4)] assms(5))

lemmas eval_defs =
  selected_def candidates_def root_candidates_def dir_candidates_def existing_dirs_def
  missing_dirs_def warnings_def dir_matches_def joinpath_def parse_parts_def is_absolute_def
  exists_def is_file_def sort_key_of_def ascii_lower_def ascii_lower_char_def as_posix_def rel_of_def
  relative_def readable_def read_text_def mkdir_exist_ok_def parent_def OUTPUT_DIR_def
  ex_library_def ex_world_def ex_pkg_def

lemma collect_error_console:
  assumes "list_all relative (include_dirs pkg)"
  shows "(collect lib fs root pkg out = Inl e) = (collect lib fs root pkg out' = Inl e)"
  by (simp add: collect_visit_all [OF assms] split: sum.splits)

lemma create_package_error_console:
  assumes "list_all relative (include_dirs pkg)"
    and "create_package lib pkg root timestamp w = Inl e"
    and "mkdir_exist_ok (nodes w) (joinpath root OUTPUT_DIR) = Inr fs"
    and "collect lib fs root pkg (console w) = Inl e"
  shows "create_package lib pkg root timestamp (w\<lparr>console := c\<rparr>) = Inl e"
proof -
  have m: "mkdir_exist_ok (nodes (w\<lparr>console := c\<rparr>)) (joinpath root OUTPUT_DIR) = Inr fs"
    using assms(3) by simp
  have "collect lib fs root pkg c = Inl e"
    using assms(4) collect_error_console [OF assms(1)] by blast
  then show ?thesis
    by (simp add: create_package_unfold [OF m])
qed

lemma set_first_seen_subset: "set (first_seen key S xs) \<subseteq> set xs"
  by (induction xs arbitrary: S) auto

lemma distinct_first_seen:
  "distinct (map key (first_seen key S xs)) \<and> key ` set (first_seen key S xs) \<inter> S = {}"
proof (induction xs arbitrary: S)
  case Nil
  then show ?case by simp
next
  case (Cons x xs)
  show ?case
  proof (cases "key x \<in> S")
    case True
    then show ?thesis using Cons.IH [of S] by simp
  next
    case False
    then show ?thesis using Cons.IH [of "insert (key x) S"] by auto
  qed
qed

lemma create_package_Inr:
  assumes "list_all relative (root_files pkg)" "list_all relative (include_dirs pkg)"
    and "mkdir_exist_ok (nodes w) (joinpath root OUTPUT_DIR) = Inr fs"
    and "create_package lib pkg root timestamp w = Inr w'"
  shows "list_all (readable fs) (selected lib fs root pkg)
         \<and> w' = written lib pkg root timestamp w fs
                  (collected_of lib fs root (selected lib fs root pkg))
                  (console w @ warnings fs root (include_dirs pkg))"
proof -
  have r: "list_all (readable fs) (selected lib fs root pkg)"
  proof (rule ccontr)
    assume "\<not> list_all (readable fs) (selected lib fs root pkg)"
    from create_package_unreadable [OF assms(1,2,3) this, of timestamp] assms(4)
    show False by auto
  qed
  then show ?thesis
    using assms(4)
    by (auto simp: create_package_unfold [OF assms(3)] collect_readable [OF assms(1,2) r]
        split: sum.splits)
qed


lemma sorted_dir_matches:
  "sorted (map (\<lambda>p. str_lower lib (rel_of root p)) (dir_matches lib fs root pattern d))
   \<and> set (dir_matches lib fs root pattern d)
       = (\<lambda>sub. joinpath root d @ sub) ` set (rglob lib fs (joinpath root d) pattern)
   \<and> length (dir_matches lib fs root pattern d)
       = length (rglob lib fs (joinpath root d) pattern)"
  by (simp add: dir_matches_def)

lemma digits_value_snoc:
  "digits_value (s @ [c]) = 10 * digits_value s + (of_char c - 48)"
  by (simp add: digits_value_def)

lemma of_char_digit_char: "d < 10 \<Longrightarrow> of_char (digit_char d) = (48 + d :: nat)"
  by (simp add: digit_char_def)

lemma digits_value_dec: "digits_value (dec n) = n"
proof (induction n rule: dec.induct)
  case (1 n)
  show ?case
  proof (cases "n < 10")
    case True
    then show ?thesis
      by (simp add: dec.simps [of n] digits_value_def of_char_digit_char)
  next
    case False
    then have "digits_value (dec (n div 10)) = n div 10"
      using "1.IH" by simp
    with False show ?thesis
      by (simp add: dec.simps [of n] digits_value_snoc of_char_digit_char)
  qed
qed

lemma digits_value_zeros: "digits_value (replicate k (CHR ''0'') @ s) = digits_value s"
proof -
  have "foldl (\<lambda>a c. 10 * a + (of_char c - 48)) (0::nat) (replicate k (CHR ''0'')) = 0"
    by (induction k) simp_all
  then show ?thesis
    by (simp add: digits_value_def)
qed

lemma digits_value_zfill: "digits_value (zfill w n) = n"
  by (simp add: zfill_def digits_value_zeros digits_value_dec)

lemma length_dec_1000: "n < 1000 \<Longrightarrow> 1 \<le> length (dec n) \<and> length (dec n) \<le> 3"
  by (simp add: dec.simps [of n] dec.simps [of "n div 10"] dec.simps [of "n div 10 div 10"])

lemma length_zfill_3: "n < 1000 \<Longrightarrow> length (zfill 3 n) = 3"
  using length_dec_1000 [of n] by (simp add: zfill_def)

lemma section_of_readable:
  assumes "readable fs p"
  shows "\<exists>content st_ctime st_mtime.
           fs p = Some (File (Text content) st_ctime st_mtime)
           \<and> section_of lib fs root (i, p)
               = section_header i (rel_of root p) (format_timestamp lib st_ctime)
                   (format_timestamp lib st_mtime) @ rstrip content @ NL"
  using assms
  by (auto simp: readable_def read_text_def section_of_def
      split: option.splits node.splits content.splits)

lemma nth_file_contents:
  assumes "i < length sel"
  shows "file_contents (collected_of lib fs root sel) ! i = section_of lib fs root (Suc i, sel ! i)"
  using assms by (simp add: collected_of_def nth_enumerate_eq)

lemma nth_toc_line:
  assumes "i < length rels"
  shows "map toc_line (enumerate 1 rels) ! i
         = ''// '' @ zfill 3 (Suc i) @ ''. '' @ rels ! i @ NL"
  using assms by (simp add: nth_enumerate_eq toc_line_def)

lemma zfill_examples:
  "zfill 3 1 = ''001''" "zfill 3 2 = ''002''" "zfill 3 3 = ''003''"
  "zfill 4 2025 = ''2025''" "zfill 2 11 = ''11''" "zfill 2 18 = ''18''" "zfill 2 12 = ''12''"
  "zfill 2 34 = ''34''" "zfill 6 0 = ''000000''"
  "zfill 2 0 = ''00''" "zfill 2 1 = ''01''" "zfill 2 2 = ''02''" "zfill 2 3 = ''03''"
  "zfill 2 4 = ''04''" "zfill 2 5 = ''05''" "zfill 2 6 = ''06''"
  by code_simp+

lemma zfill_Suc_examples:
  "zfill 3 (Suc 0) = ''001''" "zfill 3 (Suc (Suc 0)) = ''002''"
  "zfill 3 (Suc (Suc (Suc 0))) = ''003''" "zfill 2 (Suc 0) = ''01''"
  using zfill_examples(1-3,11) by (simp_all add: numeral_2_eq_2 numeral_3_eq_3)

lemma dec_small: "n < 10 \<Longrightarrow> dec n = [digit_char n]"
  by (simp add: dec.simps [of n])

lemma dec_large: "10 \<le> n \<Longrightarrow> dec n = dec (n div 10) @ [digit_char (n mod 10)]"
  by (simp add: dec.simps [of n])

lemma digit_chars:
  "digit_char 0 = CHR ''0''" "digit_char 1 = CHR ''1''" "digit_char 2 = CHR ''2''"
  "digit_char 3 = CHR ''3''" "digit_char 4 = CHR ''4''" "digit_char 5 = CHR ''5''"
  "digit_char 6 = CHR ''6''" "digit_char 7 = CHR ''7''" "digit_char 8 = CHR ''8''"
  "digit_char 9 = CHR ''9''" "digit_char (Suc 0) = CHR ''1''"
  by code_simp+

lemma replicate_numeral: "replicate (numeral k) x = x # replicate (pred_numeral k) x"
  by (simp add: numeral_eq_Suc)

lemmas zfill_eval = zfill_def dec_small dec_large digit_chars replicate_numeral

lemma zfill_time_examples:
  "zfill 2 7 = ''07''" "zfill 2 8 = ''08''" "zfill 2 9 = ''09''" "zfill 2 10 = ''10''"
  "zfill 6 123457 = ''123457''" "zfill 6 246914 = ''246914''" "zfill 6 617285 = ''617285''"
  "zfill 6 740742 = ''740742''" "zfill 6 864199 = ''864199''" "zfill 6 987656 = ''987656''"
  "zfill 6 111113 = ''111113''" "zfill 6 234570 = ''234570''" "zfill 6 358027 = ''358027''"
  "zfill 6 481484 = ''481484''" "zfill 3 4 = ''004''" "zfill 3 5 = ''005''"
  "zfill 3 999 = ''999''" "zfill 3 1000 = ''1000''"
  by (simp_all add: zfill_eval)

lemma ex_format_timestamp:
  "format_timestamp (ex_library l) 0 = ''2025-11-18 12:34:00.000''"
  "format_timestamp (ex_library l) 1 = ''2025-11-18 12:34:01.123''"
  "format_timestamp (ex_library l) 2 = ''2025-11-18 12:34:02.246''"
  "format_timestamp (ex_library l) 5 = ''2025-11-18 12:34:05.617''"
  "format_timestamp (ex_library l) 6 = ''2025-11-18 12:34:06.740''"
  "format_timestamp (ex_library l) 7 = ''2025-11-18 12:34:07.864''"
  "format_timestamp (ex_library l) 8 = ''2025-11-18 12:34:08.987''"
  "format_timestamp (ex_library l) 9 = ''2025-11-18 12:34:09.111''"
  "format_timestamp (ex_library l) 10 = ''2025-11-18 12:34:10.234''"
  "format_timestamp (ex_library l) 11 = ''2025-11-18 12:34:11.358''"
  "format_timestamp (ex_library l) 12 = ''2025-11-18 12:34:12.481''"
  by (simp_all add: format_timestamp_def TIMESTAMP_FORMAT_def directive_def ex_library_def
      ex_datetime_def zfill_examples zfill_Suc_examples zfill_time_examples)

lemma scenario_selected:
  "selected (ex_library listing_scenario) tree_scenario [''proj''] ex_pkg
   = [[''proj'', ''Cargo.toml''], [''proj'', ''src'', ''lib.rs''], [''proj'', ''src'', ''mod.rs'']]"
  by (simp add: eval_defs tree_scenario_def listing_scenario_def)

lemma scenario_readable:
  "list_all (readable tree_scenario)
     [[''proj'', ''Cargo.toml''], [''proj'', ''src'', ''lib.rs''], [''proj'', ''src'', ''mod.rs'']]"
  by (simp add: eval_defs tree_scenario_def)

lemma scenario_mkdir:
  "mkdir_exist_ok (nodes (ex_world tree_scenario)) (joinpath [''proj''] OUTPUT_DIR)
   = Inr tree_scenario"
  by (simp add: eval_defs tree_scenario_def)

lemma scenario_warnings: "warnings tree_scenario [''proj''] (include_dirs ex_pkg) = []"
  by (simp add: eval_defs tree_scenario_def)

lemma scenario_out_path:
  "out_path [''proj''] ''20251118_123456'' ex_pkg
   = [''proj'', ''code_packages'', ''20251118_123456_secure_gate_src.txt'']"
  by (simp add: out_path_def output_filename_def PROJECT_TITLE_def eval_defs)

lemma scenario_open:
  "open_w tree_scenario (out_path [''proj''] ''20251118_123456'' ex_pkg) = Inr ()"
  unfolding scenario_out_path by (simp add: open_w_def parent_def tree_scenario_def)

lemma scenario_relative:
  "list_all relative (root_files ex_pkg)" "list_all relative (include_dirs ex_pkg)"
  by (simp_all add: eval_defs)

lemma scenario_create_package:
  "create_package (ex_library listing_scenario) ex_pkg [''proj''] ''20251118_123456''
     (ex_world tree_scenario)
   = Inr (written (ex_library listing_scenario) ex_pkg [''proj''] ''20251118_123456''
            (ex_world tree_scenario) tree_scenario
            (collected_of (ex_library listing_scenario) tree_scenario [''proj'']
               [[''proj'', ''Cargo.toml''], [''proj'', ''src'', ''lib.rs''],
                [''proj'', ''src'', ''mod.rs'']])
            [])"
proof -
  have r: "list_all (readable tree_scenario)
             (selected (ex_library listing_scenario) tree_scenario [''proj''] ex_pkg)"
    unfolding scenario_selected by (rule scenario_readable)
  from create_package_readable [OF scenario_relative scenario_mkdir r scenario_open]
  show ?thesis
    unfolding scenario_selected scenario_warnings by (simp add: ex_world_def)
qed





section \<open>Root Locator\<close>

text \<open>
  C3. The claim: from the starting directory the locator walks upward until a directory
  contains \<open>Cargo.toml\<close>, and returns it; without a marker it returns the starting
  directory. The loop stops when it reaches the filesystem root and never looks into the
  root itself: with the script in \<open>/a\<close> and the only marker in \<open>/\<close>, the ancestor \<open>/\<close>
  contains the marker, and the locator returns \<open>/a\<close>.
\<close>

theorem find_project_root_misses_marker_in_root:
  "exists tree_marker_at_root [''Cargo.toml'']
   \<and> parent [''a'', ''package_it.py''] = [''a'']
   \<and> find_project_root tree_marker_at_root [''a'', ''package_it.py''] = [''a'']"
  by (simp add: find_project_root_def walk_up.simps parent_def exists_def
      tree_marker_at_root_def)

section \<open>Missing include directories\<close>



section \<open>Read failures\<close>

text \<open>
  C5. A file the collector selects and cannot read as UTF-8 text (no permission, bytes
  that do not decode, a directory, a vanished path) ends the run: \<open>create_package\<close>
  returns the error of the first such file, and so does the loop over the packages,
  whatever packages remain. No branch of the collector skips a selected file or replaces
  its content. The hypotheses: the entries of the package are relative paths, and
  \<open>fs\<close> is the tree once the output directory is there.
\<close>

theorem read_failure_aborts_run:
  assumes "list_all relative (root_files pkg)" "list_all relative (include_dirs pkg)"
    and "mkdir_exist_ok (nodes w) (joinpath root OUTPUT_DIR) = Inr fs"
    and "p \<in> set (selected lib fs root pkg)"
    and "\<not> readable fs p"
  shows "\<exists>q. q \<in> set (selected lib fs root pkg) \<and> \<not> readable fs q
           \<and> create_package lib pkg root timestamp w = Inl (projl (read_text fs q))
           \<and> pkg_loop lib root timestamp (pkg # rest) w = Inl (projl (read_text fs q))"
proof -
  have n: "\<not> list_all (readable fs) (selected lib fs root pkg)"
    using assms(4,5) by (auto simp: list_all_iff)
  obtain q where q: "q \<in> set (selected lib fs root pkg)" "\<not> readable fs q"
    and c: "collect lib fs root pkg (console w) = Inl (projl (read_text fs q))"
    using collect_unreadable [OF assms(1,2) n] by blast
  have cp: "create_package lib pkg root timestamp w = Inl (projl (read_text fs q))"
    using c by (simp add: create_package_unfold [OF assms(3)])
  have "pkg_loop lib root timestamp (pkg # rest) w = Inl (projl (read_text fs q))"
    using create_package_error_console [OF assms(2) cp assms(3) c]
    by (simp add: Let_def)
  with q cp show ?thesis
    by blast
qed

theorem read_failure_aborts_run_witness:
  "list_all relative (root_files ex_pkg) \<and> list_all relative (include_dirs ex_pkg)
   \<and> mkdir_exist_ok (nodes (ex_world tree_not_utf8)) (joinpath [''proj''] OUTPUT_DIR)
       = Inr tree_not_utf8
   \<and> [''proj'', ''src'', ''lib.rs'']
       \<in> set (selected (ex_library listing_lib_rs) tree_not_utf8 [''proj''] ex_pkg)
   \<and> \<not> readable tree_not_utf8 [''proj'', ''src'', ''lib.rs'']
   \<and> create_package (ex_library listing_lib_rs) ex_pkg [''proj''] ''20251118_123456''
        (ex_world tree_not_utf8) = Inl UnicodeDecodeError
   \<and> pkg_loop (ex_library listing_lib_rs) [''proj''] ''20251118_123456'' [ex_pkg]
        (ex_world tree_not_utf8) = Inl UnicodeDecodeError"
proof -
  have h1: "list_all relative (root_files ex_pkg)"
    by (simp add: eval_defs)
  have h2: "list_all relative (include_dirs ex_pkg)"
    by (simp add: eval_defs)
  have h3: "mkdir_exist_ok (nodes (ex_world tree_not_utf8)) (joinpath [''proj''] OUTPUT_DIR)
            = Inr tree_not_utf8"
    by (simp add: eval_defs tree_not_utf8_def)
  have s: "selected (ex_library listing_lib_rs) tree_not_utf8 [''proj''] ex_pkg
           = [[''proj'', ''Cargo.toml''], [''proj'', ''src'', ''lib.rs'']]"
    by (simp add: eval_defs tree_not_utf8_def listing_lib_rs_def)
  have h4: "[''proj'', ''src'', ''lib.rs'']
            \<in> set (selected (ex_library listing_lib_rs) tree_not_utf8 [''proj''] ex_pkg)"
    by (simp add: s)
  have r1: "readable tree_not_utf8 [''proj'', ''Cargo.toml'']"
    by (simp add: eval_defs tree_not_utf8_def)
  have h5: "\<not> readable tree_not_utf8 [''proj'', ''src'', ''lib.rs'']"
    by (simp add: eval_defs tree_not_utf8_def)
  have e: "projl (read_text tree_not_utf8 [''proj'', ''src'', ''lib.rs'']) = UnicodeDecodeError"
    by (simp add: eval_defs tree_not_utf8_def)
  from read_failure_aborts_run [OF h1 h2 h3 h4 h5, of "''20251118_123456''" "[]"]
  obtain q where "q \<in> set (selected (ex_library listing_lib_rs) tree_not_utf8 [''proj''] ex_pkg)"
    "\<not> readable tree_not_utf8 q"
    "create_package (ex_library listing_lib_rs) ex_pkg [''proj''] ''20251118_123456''
       (ex_world tree_not_utf8) = Inl (projl (read_text tree_not_utf8 q))"
    "pkg_loop (ex_library listing_lib_rs) [''proj''] ''20251118_123456'' [ex_pkg]
       (ex_world tree_not_utf8) = Inl (projl (read_text tree_not_utf8 q))"
    by blast
  moreover from this(1,2) r1 have "q = [''proj'', ''src'', ''lib.rs'']"
    by (auto simp: s)
  ultimately show ?thesis
    using h1 h2 h3 h4 h5 e by simp
qed

section \<open>Directories among the matches\<close>

text \<open>
  C9. The traversal hands every match of \<open>rglob\<close> to \<open>add_file\<close>, whatever kind of
  entry it is. A selected path that is a directory was not listed in \<open>root_files\<close>
  (those are taken only when they are files), so it is a match of the traversal; reading
  it raises \<open>IsADirectoryError\<close>, and \<open>create_package\<close> ends with an error, writing no
  document. The instance below is a tree with a directory \<open>src/gen.rs\<close>.
\<close>

theorem matching_directory_aborts_run:
  assumes "list_all relative (root_files pkg)" "list_all relative (include_dirs pkg)"
    and "mkdir_exist_ok (nodes w) (joinpath root OUTPUT_DIR) = Inr fs"
    and "p \<in> set (selected lib fs root pkg)"
    and "fs p = Some Dir"
  shows "p \<in> set (dir_candidates lib fs root (file_pattern pkg) (include_dirs pkg))
         \<and> add_file lib fs acc p root = Inl IsADirectoryError
         \<and> (\<exists>e. create_package lib pkg root timestamp w = Inl e)"
proof -
  have "set (selected lib fs root pkg) \<subseteq> set (candidates lib fs root pkg)"
    by (simp add: selected_def set_first_seen_subset)
  with assms(4) have c: "p \<in> set (candidates lib fs root pkg)"
    by blast
  have "p \<notin> set (root_candidates fs root pkg)"
    using assms(5) by (simp add: root_candidates_def is_file_def)
  with c have d: "p \<in> set (dir_candidates lib fs root (file_pattern pkg) (include_dirs pkg))"
    by (simp add: candidates_def)
  have "list_all (below root) (candidates lib fs root pkg)"
    by (rule candidates_below [OF assms(1,2)])
  with c have b: "below root p"
    by (simp add: list_all_iff)
  have nr: "\<not> readable fs p"
    using assms(5) by (simp add: readable_def read_text_def)
  have a: "add_file lib fs acc p root = Inl IsADirectoryError"
    using add_file_unreadable [OF b nr] assms(5) by (simp add: read_text_def)
  have "\<not> list_all (readable fs) (selected lib fs root pkg)"
    using assms(4) nr by (auto simp: list_all_iff)
  from create_package_unreadable [OF assms(1,2,3) this] d a show ?thesis
    by blast
qed

theorem matching_directory_aborts_run_witness:
  "list_all relative (root_files ex_pkg) \<and> list_all relative (include_dirs ex_pkg)
   \<and> mkdir_exist_ok (nodes (ex_world tree_dir_named_rs)) (joinpath [''proj''] OUTPUT_DIR)
       = Inr tree_dir_named_rs
   \<and> [''proj'', ''src'', ''gen.rs'']
       \<in> set (selected (ex_library listing_dir_named_rs) tree_dir_named_rs [''proj''] ex_pkg)
   \<and> tree_dir_named_rs [''proj'', ''src'', ''gen.rs''] = Some Dir
   \<and> [''proj'', ''src'', ''gen.rs'']
       \<in> set (dir_candidates (ex_library listing_dir_named_rs) tree_dir_named_rs [''proj'']
                (file_pattern ex_pkg) (include_dirs ex_pkg))
   \<and> create_package (ex_library listing_dir_named_rs) ex_pkg [''proj''] ''20251118_123456''
        (ex_world tree_dir_named_rs) = Inl IsADirectoryError"
proof -
  have h1: "list_all relative (root_files ex_pkg)"
    by (simp add: eval_defs)
  have h2: "list_all relative (include_dirs ex_pkg)"
    by (simp add: eval_defs)
  have h3: "mkdir_exist_ok (nodes (ex_world tree_dir_named_rs)) (joinpath [''proj''] OUTPUT_DIR)
            = Inr tree_dir_named_rs"
    by (simp add: eval_defs tree_dir_named_rs_def)
  have s: "selected (ex_library listing_dir_named_rs) tree_dir_named_rs [''proj''] ex_pkg
           = [[''proj'', ''src'', ''gen.rs''], [''proj'', ''src'', ''lib.rs'']]"
    by (simp add: eval_defs tree_dir_named_rs_def listing_dir_named_rs_def)
  have h4: "[''proj'', ''src'', ''gen.rs'']
            \<in> set (selected (ex_library listing_dir_named_rs) tree_dir_named_rs [''proj''] ex_pkg)"
    by (simp add: s)
  have h5: "tree_dir_named_rs [''proj'', ''src'', ''gen.rs''] = Some Dir"
    by (simp add: tree_dir_named_rs_def)
  have r: "readable tree_dir_named_rs [''proj'', ''src'', ''lib.rs'']"
    by (simp add: eval_defs tree_dir_named_rs_def)
  have n: "\<not> list_all (readable tree_dir_named_rs)
            (selected (ex_library listing_dir_named_rs) tree_dir_named_rs [''proj''] ex_pkg)"
    unfolding s by (simp add: eval_defs tree_dir_named_rs_def)
  obtain q where q: "q \<in> set (selected (ex_library listing_dir_named_rs) tree_dir_named_rs [''proj''] ex_pkg)"
    "\<not> readable tree_dir_named_rs q"
    "create_package (ex_library listing_dir_named_rs) ex_pkg [''proj''] ''20251118_123456''
       (ex_world tree_dir_named_rs) = Inl (projl (read_text tree_dir_named_rs q))"
    using create_package_unreadable [OF h1 h2 h3 n] by blast
  from q(1,2) r have "q = [''proj'', ''src'', ''gen.rs'']"
    by (auto simp: s)
  with q(3) have "create_package (ex_library listing_dir_named_rs) ex_pkg [''proj''] ''20251118_123456''
       (ex_world tree_dir_named_rs) = Inl IsADirectoryError"
    by (simp add: read_text_def tree_dir_named_rs_def)
  with matching_directory_aborts_run [OF h1 h2 h3 h4 h5, of "([], [])" "''20251118_123456''"]
  show ?thesis
    using h1 h2 h3 h4 h5 by simp
qed

end
